theory Spec2Isabelle
  imports Main
begin

section \<open>Round EL language server (server.ts): data model\<close>

text \<open>
  The protocol types come from the language-server library; only the fields the
  server reads or writes are kept. An optional field of the protocol is an
  \<open>option\<close>, with \<open>None\<close> for JavaScript's \<open>undefined\<close>.
\<close>

datatype CompletionItemKind = Text | Function | Keyword | OtherKind nat

datatype TextDocumentSyncKind = SyncNone | Full | Incremental

text \<open>
  A handler that throws is a value \<open>Inl\<close> of the result; the only exception the
  handlers can raise is the \<open>TypeError\<close> of reading a property of \<open>undefined\<close>.
  The string names the expression that was \<open>undefined\<close>.
\<close>

datatype js_error = TypeError string

text \<open>
  \<open>item.documentation\<close> is a plain string or a markup object \<open>{ kind, value }\<close>.
  The last branch of the resolve handler stores whatever \<open>item.documentation\<close>
  held before (possibly \<open>undefined\<close>) as the \<open>value\<close>, hence the option.
\<close>

datatype Documentation = DocString string | MarkupContent string "Documentation option"

text \<open>
  The resolve handler reads \<open>item.data\<close> at the type \<open>{ type: string; id: number }\<close>.
  The number is an integer here: a fractional number indexes an array to
  \<open>undefined\<close>, exactly as an integer out of range does.
\<close>

record ResolveData =
  data_type :: string
  data_id :: int

record CompletionItem =
  label :: string
  kind :: "CompletionItemKind option"
  detail :: "string option"
  documentation :: "Documentation option"
  insertText :: "string option"
  data :: "ResolveData option"

record Position =
  line :: nat
  character :: nat

record TextDocumentPositionParams =
  textDocument_uri :: string
  position :: Position

record WorkspaceClientCapabilities =
  configuration :: "bool option"
  workspaceFolders :: "bool option"

record ClientCapabilities =
  workspace :: "WorkspaceClientCapabilities option"

record InitializeParams =
  capabilities :: ClientCapabilities

record CompletionOptions =
  resolveProvider :: bool

record WorkspaceFoldersServerCapabilities =
  supported :: bool

record ServerCapabilities =
  textDocumentSync :: TextDocumentSyncKind
  completionProvider :: CompletionOptions
  server_workspaceFolders :: "WorkspaceFoldersServerCapabilities option"

record InitializeResult =
  result_capabilities :: ServerCapabilities

text \<open>
  The module-level variables of the server: the two capability flags and the
  document manager, a map from the uri of every open document to its text.
\<close>

record server_state =
  hasConfigurationCapability :: bool
  hasWorkspaceFolderCapability :: bool
  documents :: "string \<rightharpoonup> string"

record BuiltinFunction =
  name :: string
  category :: string
  fn_documentation :: string

section \<open>Initialization\<close>

definition onInitialize :: "server_state \<Rightarrow> InitializeParams \<Rightarrow> InitializeResult \<times> server_state" where
  "onInitialize st params =
     (let caps = capabilities params;
          hasConf = (case workspace caps of None \<Rightarrow> False
                     | Some w \<Rightarrow> configuration w = Some True);
          hasFolders = (case workspace caps of None \<Rightarrow> False
                        | Some w \<Rightarrow> workspaceFolders w = Some True);
          st' = st\<lparr>hasConfigurationCapability := hasConf,
                   hasWorkspaceFolderCapability := hasFolders\<rparr>;
          result = \<lparr>result_capabilities =
                     \<lparr>textDocumentSync = Incremental,
                      completionProvider = \<lparr>resolveProvider = True\<rparr>,
                      server_workspaceFolders = None\<rparr>\<rparr>
      in if hasWorkspaceFolderCapability st'
         then (result\<lparr>result_capabilities :=
                 (result_capabilities result)
                   \<lparr>server_workspaceFolders := Some \<lparr>supported = True\<rparr>\<rparr>\<rparr>, st')
         else (result, st'))"

section \<open>The static catalogs\<close>

text \<open>
  The arrays \<open>keywords\<close> and \<open>functions\<close> of the source; both names are reserved
  words of the theory language, hence the suffix.
\<close>

definition keywords_catalog :: "string list" where
  "keywords_catalog = [''if'', ''else'', ''for'', ''while'', ''break'', ''continue'',
               ''return'', ''and'', ''or'', ''import'']"

definition functions_catalog :: "BuiltinFunction list" where
  "functions_catalog =
    [\<lparr>name = ''to_timestamp'', category = ''Date'', fn_documentation = ''Convert to timestamp''\<rparr>,
     \<lparr>name = ''to_unix_timestamp'', category = ''Date'', fn_documentation = ''Convert to Unix timestamp''\<rparr>,
     \<lparr>name = ''parse_date'', category = ''Date'', fn_documentation = ''Parse date string''\<rparr>,
     \<lparr>name = ''parse_local_datetime'', category = ''Date'', fn_documentation = ''Parse local datetime''\<rparr>,
     \<lparr>name = ''date_format'', category = ''Date'', fn_documentation = ''Format date''\<rparr>,
     \<lparr>name = ''print'', category = ''IO'', fn_documentation = ''Print to stdout''\<rparr>,
     \<lparr>name = ''printf'', category = ''IO'', fn_documentation = ''Formatted print''\<rparr>,
     \<lparr>name = ''println'', category = ''IO'', fn_documentation = ''Print with newline''\<rparr>,
     \<lparr>name = ''printi'', category = ''IO'', fn_documentation = ''Print integer''\<rparr>,
     \<lparr>name = ''interpolate'', category = ''IO'', fn_documentation = ''String interpolation''\<rparr>,
     \<lparr>name = ''rand'', category = ''Random'', fn_documentation = ''Random float''\<rparr>,
     \<lparr>name = ''randi'', category = ''Random'', fn_documentation = ''Random integer''\<rparr>,
     \<lparr>name = ''choose'', category = ''Random'', fn_documentation = ''Choose random element''\<rparr>,
     \<lparr>name = ''uuid'', category = ''Random'', fn_documentation = ''Generate UUID''\<rparr>,
     \<lparr>name = ''uuid32'', category = ''Random'', fn_documentation = ''Generate 32-char UUID''\<rparr>,
     \<lparr>name = ''uuid36'', category = ''Random'', fn_documentation = ''Generate 36-char UUID''\<rparr>,
     \<lparr>name = ''reverse'', category = ''String'', fn_documentation = ''Reverse string or array''\<rparr>]"

text \<open>An object literal \<open>{ label, kind, insertText }\<close>: every other field is absent.\<close>

definition textItem :: "string \<Rightarrow> CompletionItem" where
  "textItem s = \<lparr>label = s, kind = Some Text, detail = None, documentation = None,
                 insertText = Some s, data = None\<rparr>"

definition brackets :: "CompletionItem list" where
  "brackets = [textItem ''('', textItem '')'', textItem ''{'', textItem ''}'',
               textItem ''['', textItem '']'']"

definition quotes :: "CompletionItem list" where
  "quotes = [textItem [CHR 0x22], textItem [CHR 0x27]]"

section \<open>The completion handler\<close>

definition keywordItems :: "CompletionItem list" where
  "keywordItems =
     map (\<lambda>(index, keyword).
            \<lparr>label = keyword, kind = Some Keyword, detail = None, documentation = None,
             insertText = None,
             data = Some \<lparr>data_type = ''keyword'', data_id = int index\<rparr>\<rparr>)
         (enumerate 0 keywords_catalog)"

definition functionItems :: "CompletionItem list" where
  "functionItems =
     map (\<lambda>(index, func).
            \<lparr>label = name func, kind = Some Function, detail = None, documentation = None,
             insertText = None,
             data = Some \<lparr>data_type = ''function'', data_id = int index\<rparr>\<rparr>)
         (enumerate 0 functions_catalog)"

text \<open>
  The handler reads neither its parameter nor any variable of the server; it
  contains no expression that can throw.
\<close>

definition onCompletion ::
  "server_state \<Rightarrow> TextDocumentPositionParams \<Rightarrow> js_error + CompletionItem list" where
  "onCompletion st textDocumentPosition =
     Inr (functionItems @ keywordItems @ brackets @ quotes)"

section \<open>The resolve handler\<close>

text \<open>\<open>xs[i]\<close> in JavaScript: \<open>undefined\<close> when \<open>i\<close> is not an index of the array.\<close>

definition js_index :: "'a list \<Rightarrow> int \<Rightarrow> 'a option" where
  "js_index xs i = (if 0 \<le> i \<and> i < int (length xs) then Some (xs ! nat i) else None)"

text \<open>A string-or-undefined value inside a template literal.\<close>

definition template :: "string option \<Rightarrow> string" where
  "template v = (case v of None \<Rightarrow> ''undefined'' | Some s \<Rightarrow> s)"

text \<open>The \<open>switch (keyword)\<close> of the first branch; no case matches \<open>undefined\<close>.\<close>

definition keywordSwitch :: "string option \<Rightarrow> CompletionItem \<Rightarrow> CompletionItem" where
  "keywordSwitch keyword item =
     (if keyword = Some ''if'' \<or> keyword = Some ''else''
        then item\<lparr>documentation := Some (DocString ''Conditional statement'')\<rparr>
      else if keyword = Some ''for'' \<or> keyword = Some ''while''
        then item\<lparr>documentation := Some (DocString ''Loop statement'')\<rparr>
      else if keyword = Some ''break''
        then item\<lparr>documentation := Some (DocString ''Exit from loop'')\<rparr>
      else if keyword = Some ''continue''
        then item\<lparr>documentation := Some (DocString ''Skip to next iteration'')\<rparr>
      else if keyword = Some ''return''
        then item\<lparr>documentation := Some (DocString ''Return from function'')\<rparr>
      else if keyword = Some ''and'' \<or> keyword = Some ''or''
        then item\<lparr>documentation := Some (DocString ''Logical operator'')\<rparr>
      else if keyword = Some ''import''
        then item\<lparr>documentation := Some (DocString ''Import statement'')\<rparr>
      else item)"

text \<open>
  The branches of the \<open>if\<close>/\<open>else if\<close> chain of the resolve handler, in source
  order; \<open>NoBranch\<close> is falling through all three tests.
\<close>

datatype resolve_branch = KeywordBranch | FunctionBranch | KeywordFallbackBranch | NoBranch

text \<open>
  The handler, returning the branch it entered beside the item. \<open>data.type\<close>
  throws when \<open>item.data\<close> is \<open>undefined\<close>, before any test; \<open>func.category\<close>
  throws when \<open>functions[data.id]\<close> is \<open>undefined\<close>, before any assignment.
\<close>

definition resolveTraced :: "CompletionItem \<Rightarrow> js_error + (resolve_branch \<times> CompletionItem)" where
  "resolveTraced item =
     (case data item of
        None \<Rightarrow> Inl (TypeError ''data'')
      | Some d \<Rightarrow>
          if data_type d = ''keyword'' then
            (let keyword = js_index keywords_catalog (data_id d);
                 item1 = item\<lparr>detail := Some (''Keyword: '' @ template keyword)\<rparr>
             in Inr (KeywordBranch, keywordSwitch keyword item1))
          else if data_type d = ''function'' then
            (case js_index functions_catalog (data_id d) of
               None \<Rightarrow> Inl (TypeError ''func'')
             | Some func \<Rightarrow>
                 Inr (FunctionBranch,
                      item\<lparr>detail := Some (category func @ '': '' @ name func),
                           documentation :=
                             Some (MarkupContent ''markdown''
                                     (Some (DocString (fn_documentation func))))\<rparr>))
          else if data_type d = ''keyword'' then
            Inr (KeywordFallbackBranch,
                 item\<lparr>documentation :=
                        Some (MarkupContent ''markdown'' (documentation item))\<rparr>)
          else Inr (NoBranch, item))"

definition onCompletionResolve :: "CompletionItem \<Rightarrow> js_error + CompletionItem" where
  "onCompletionResolve item = map_sum id snd (resolveTraced item)"

section \<open>Concrete inputs\<close>

text \<open>The module-level variables as the server starts: both flags false, no document open.\<close>

definition initialState :: server_state where
  "initialState = \<lparr>hasConfigurationCapability = False, hasWorkspaceFolderCapability = False,
                    documents = Map.empty\<rparr>"

text \<open>One open document holding \<open>if x { return\<close>, and the cursor after \<open>ret\<close>.\<close>

definition scenarioState :: server_state where
  "scenarioState = initialState\<lparr>documents := [''file:///main.rel'' \<mapsto> ''if x { return'']\<rparr>"

definition scenarioPosition :: TextDocumentPositionParams where
  "scenarioPosition = \<lparr>textDocument_uri = ''file:///main.rel'',
                         position = \<lparr>line = 0, character = 10\<rparr>\<rparr>"

text \<open>A request for a uri that no open document has.\<close>

definition closedPosition :: TextDocumentPositionParams where
  "closedPosition = \<lparr>textDocument_uri = ''file:///closed.rel'',
                       position = \<lparr>line = 0, character = 0\<rparr>\<rparr>"

text \<open>Items whose index is one past the end of their catalog, and one with an unknown tag.\<close>

definition staleItem :: "string \<Rightarrow> int \<Rightarrow> CompletionItem" where
  "staleItem tag i = \<lparr>label = ''stale'', kind = None, detail = None, documentation = None,
                       insertText = None, data = Some \<lparr>data_type = tag, data_id = i\<rparr>\<rparr>"

section \<open>Auxiliary facts\<close>

lemma js_index_nat: "i < length xs \<Longrightarrow> js_index xs (int i) = Some (xs ! i)"
  by (simp add: js_index_def)

lemma length_functionItems: "length functionItems = length functions_catalog"
  by (simp add: functionItems_def)

lemma length_keywordItems: "length keywordItems = length keywords_catalog"
  by (simp add: keywordItems_def)

lemma functionItems_nth:
  "i < length functions_catalog \<Longrightarrow>
   functionItems ! i =
     \<lparr>label = name (functions_catalog ! i), kind = Some Function, detail = None,
      documentation = None, insertText = None,
      data = Some \<lparr>data_type = ''function'', data_id = int i\<rparr>\<rparr>"
  by (simp add: functionItems_def nth_enumerate_eq)

lemma keywordItems_nth:
  "i < length keywords_catalog \<Longrightarrow>
   keywordItems ! i =
     \<lparr>label = keywords_catalog ! i, kind = Some Keyword, detail = None,
      documentation = None, insertText = None,
      data = Some \<lparr>data_type = ''keyword'', data_id = int i\<rparr>\<rparr>"
  by (simp add: keywordItems_def nth_enumerate_eq)

text \<open>The \<open>switch\<close> writes \<open>documentation\<close> only.\<close>

lemma keywordSwitch_fields:
  "data (keywordSwitch k item) = data item"
  "detail (keywordSwitch k item) = detail item"
  "label (keywordSwitch k item) = label item"
  "kind (keywordSwitch k item) = kind item"
  "insertText (keywordSwitch k item) = insertText item"
  by (simp_all add: keywordSwitch_def)

lemma keywordSwitch_detail_idem:
  "keywordSwitch k ((keywordSwitch k (item\<lparr>detail := d\<rparr>))\<lparr>detail := d\<rparr>)
   = keywordSwitch k (item\<lparr>detail := d\<rparr>)"
  by (simp add: keywordSwitch_def)

lemma keywordSwitch_undefined: "keywordSwitch None item = item"
  by (simp add: keywordSwitch_def)

text \<open>Every keyword of the catalog has a case in the \<open>switch\<close>.\<close>

lemma keywordSwitch_catalog:
  "k \<in> set keywords_catalog \<Longrightarrow>
   \<exists>s. documentation (keywordSwitch (Some k) item) = Some (DocString s)"
  by (auto simp add: keywords_catalog_def keywordSwitch_def)

lemma function_names_kinds:
  "map (\<lambda>i. (label i, kind i)) functionItems
   = map (\<lambda>f. (name f, Some Function)) functions_catalog"
  by (rule nth_equalityI) (simp_all add: length_functionItems functionItems_nth)

lemma keyword_names_kinds:
  "map (\<lambda>i. (label i, kind i)) keywordItems
   = map (\<lambda>k. (k, Some Keyword)) keywords_catalog"
  by (rule nth_equalityI) (simp_all add: length_keywordItems keywordItems_nth)

lemma names_kinds_distinct:
  "distinct (map (\<lambda>i. (label i, kind i))
               (functionItems @ keywordItems @ brackets @ quotes))"
  apply (simp only: map_append function_names_kinds keyword_names_kinds)
  apply (simp add: functions_catalog_def keywords_catalog_def brackets_def quotes_def
           textItem_def)
  done

lemma keyword_labels: "map label keywordItems = keywords_catalog"
  by (rule nth_equalityI) (simp_all add: length_keywordItems keywordItems_nth)

lemma keyword_kinds:
  "filter (\<lambda>i. kind i = Some Keyword) (functionItems @ keywordItems @ brackets @ quotes)
   = keywordItems"
  by (simp add: functionItems_def keywordItems_def brackets_def quotes_def textItem_def
        filter_map o_def split_def)

lemma no_detail_in_list:
  "i \<in> set (functionItems @ keywordItems @ brackets @ quotes) \<Longrightarrow>
   detail i = None \<and> documentation i = None"
  by (auto simp add: functionItems_def keywordItems_def brackets_def quotes_def textItem_def)

section \<open>Properties\<close>

text \<open>
  C1. For every completion request the returned list is the function items, then
  the keyword items, then the brackets, then the quotes, each group in catalog
  order and whatever the document and the position (hence whatever the prefix
  under the cursor). The function and keyword items carry the names of their
  catalogs under the kinds \<open>Function\<close> and \<open>Keyword\<close>, no pair of name and kind
  occurs twice in the list, and the request returns a list, never an error.
\<close>

theorem completion_merge:
  "onCompletion st params = Inr (functionItems @ keywordItems @ brackets @ quotes)
   \<and> map (\<lambda>i. (label i, kind i)) functionItems
       = map (\<lambda>f. (name f, Some Function)) functions_catalog
   \<and> map (\<lambda>i. (label i, kind i)) keywordItems
       = map (\<lambda>k. (k, Some Keyword)) keywords_catalog
   \<and> distinct (map (\<lambda>i. (label i, kind i))
                  (functionItems @ keywordItems @ brackets @ quotes))"
  using function_names_kinds keyword_names_kinds names_kinds_distinct
  by (simp add: onCompletion_def)

text \<open>
  C2, as the code has it. For an item that carries resolve data: when the tag is
  neither \<open>keyword\<close> nor \<open>function\<close>, resolve returns the item unmodified; when
  the tag is \<open>keyword\<close> and the index is outside the keyword catalog, resolve
  returns the item with the detail \<open>Keyword: undefined\<close> and nothing else
  changed; resolve throws exactly when the tag is \<open>function\<close> and the index is
  outside the function catalog. The completion handler never throws.
\<close>

theorem resolve_outcomes:
  assumes "data item = Some d"
  shows "(data_type d \<noteq> ''keyword'' \<and> data_type d \<noteq> ''function''
            \<longrightarrow> onCompletionResolve item = Inr item)
       \<and> (data_type d = ''keyword''
            \<and> (data_id d < 0 \<or> int (length keywords_catalog) \<le> data_id d)
            \<longrightarrow> onCompletionResolve item
                = Inr (item\<lparr>detail := Some ''Keyword: undefined''\<rparr>))
       \<and> (isl (onCompletionResolve item)
            \<longleftrightarrow> data_type d = ''function''
                \<and> (data_id d < 0 \<or> int (length functions_catalog) \<le> data_id d))
       \<and> \<not> isl (onCompletion st params)"
  using assms
  by (auto simp add: onCompletionResolve_def resolveTraced_def Let_def js_index_def
        template_def keywordSwitch_undefined onCompletion_def)

text \<open>
  The three cases at concrete items: an unknown tag, a keyword index one past the
  end, a function index one past the end.
\<close>

theorem resolve_outcomes_witness:
  "onCompletionResolve (staleItem ''variable'' 0) = Inr (staleItem ''variable'' 0)
   \<and> onCompletionResolve (staleItem ''keyword'' 10)
       = Inr ((staleItem ''keyword'' 10)\<lparr>detail := Some ''Keyword: undefined''\<rparr>)
   \<and> isl (onCompletionResolve (staleItem ''function'' 17))
   \<and> \<not> isl (onCompletionResolve (staleItem ''function'' 16))
   \<and> \<not> isl (onCompletion initialState closedPosition)"
  using resolve_outcomes [of "staleItem ''variable'' 0"
                             "\<lparr>data_type = ''variable'', data_id = 0\<rparr>"
                             initialState closedPosition]
        resolve_outcomes [of "staleItem ''keyword'' 10"
                             "\<lparr>data_type = ''keyword'', data_id = 10\<rparr>"
                             initialState closedPosition]
        resolve_outcomes [of "staleItem ''function'' 17"
                             "\<lparr>data_type = ''function'', data_id = 17\<rparr>"
                             initialState closedPosition]
        resolve_outcomes [of "staleItem ''function'' 16"
                             "\<lparr>data_type = ''function'', data_id = 16\<rparr>"
                             initialState closedPosition]
  by (simp add: staleItem_def keywords_catalog_def functions_catalog_def)

text \<open>
  C2 as stated fails. The bracket item \<open>(\<close>, which the completion handler itself
  returns, carries no data, and resolving it throws. A function item with the
  index 17 throws as well, and a keyword item with the index 10 comes back
  modified.
\<close>

theorem resolve_unlocated_counterexample:
  "textItem ''('' \<in> set brackets
   \<and> data (textItem ''('') = None
   \<and> onCompletionResolve (textItem ''('') = Inl (TypeError ''data'')
   \<and> onCompletionResolve (staleItem ''function'' 17) = Inl (TypeError ''func'')
   \<and> onCompletionResolve (staleItem ''keyword'' 10)
       = Inr ((staleItem ''keyword'' 10)\<lparr>detail := Some ''Keyword: undefined''\<rparr>)
   \<and> (staleItem ''keyword'' 10)\<lparr>detail := Some ''Keyword: undefined''\<rparr>
       \<noteq> staleItem ''keyword'' 10"
  by (simp add: brackets_def textItem_def staleItem_def onCompletionResolve_def
        resolveTraced_def js_index_def template_def keywordSwitch_undefined
        keywords_catalog_def functions_catalog_def)

text \<open>
  C3, as the code has it. A completion request whose uri names no open document
  succeeds like any other: it returns the full static list, and no error.
\<close>

theorem unopened_uri_completion:
  "documents st (textDocument_uri params) = None \<Longrightarrow>
   onCompletion st params = Inr (functionItems @ keywordItems @ brackets @ quotes)"
  by (simp add: onCompletion_def)

theorem unopened_uri_completion_witness:
  "documents initialState (textDocument_uri closedPosition) = None
   \<and> onCompletion initialState closedPosition
       = Inr (functionItems @ keywordItems @ brackets @ quotes)"
  using unopened_uri_completion [of initialState closedPosition]
  by (simp add: initialState_def)

text \<open>
  C3 as stated fails: with no document open, the request for
  \<open>file:///closed.rel\<close> does not fail at all.
\<close>

theorem unopened_uri_counterexample:
  "documents initialState (textDocument_uri closedPosition) = None
   \<and> \<not> isl (onCompletion initialState closedPosition)"
  by (simp add: initialState_def onCompletion_def)

text \<open>
  C4. Resolve is idempotent: resolving the result of a resolve gives what the
  first resolve gave; where the first resolve throws there is no result to
  resolve again, and the composition throws the same error.
\<close>

theorem resolve_idempotent:
  "(case onCompletionResolve item of Inl e \<Rightarrow> Inl e | Inr r \<Rightarrow> onCompletionResolve r)
   = onCompletionResolve item"
  by (simp add: onCompletionResolve_def resolveTraced_def Let_def keywordSwitch_fields
        keywordSwitch_detail_idem split: option.split)

text \<open>
  C5. The completion handler is a constant function: whatever the two server
  states and the two parameters, the two results are the same list.
\<close>

theorem completion_constant:
  "onCompletion st1 params1 = onCompletion st2 params2"
  by (simp add: onCompletion_def)

text \<open>
  C6, as the code has it. The handler filters nothing by prefix: for every
  request, the one with the cursor after \<open>ret\<close> included, the keyword items of
  the list are all ten keywords in catalog order, so \<open>return\<close> is in the list,
  seventh among the keywords, and \<open>if\<close> is in the list too, first among them.
\<close>

theorem keywords_unfiltered:
  "\<exists>items. onCompletion st params = Inr items
     \<and> map label (filter (\<lambda>i. kind i = Some Keyword) items)
         = [''if'', ''else'', ''for'', ''while'', ''break'', ''continue'',
            ''return'', ''and'', ''or'', ''import'']"
proof -
  have "map label (filter (\<lambda>i. kind i = Some Keyword)
                     (functionItems @ keywordItems @ brackets @ quotes))
        = keywords_catalog"
    by (simp only: keyword_kinds keyword_labels)
  then show ?thesis
    by (simp add: onCompletion_def keywords_catalog_def del: filter_append)
qed

text \<open>
  C6 as stated fails: with the document \<open>if x { return\<close> open and the cursor at
  column 10, after \<open>ret\<close>, the keyword item \<open>if\<close> is in the returned list.
\<close>

theorem prefix_ret_counterexample:
  "documents scenarioState (textDocument_uri scenarioPosition) = Some ''if x { return''
   \<and> onCompletion scenarioState scenarioPosition
       = Inr (functionItems @ keywordItems @ brackets @ quotes)
   \<and> \<lparr>label = ''if'', kind = Some Keyword, detail = None, documentation = None,
        insertText = None, data = Some \<lparr>data_type = ''keyword'', data_id = 0\<rparr>\<rparr>
       \<in> set (functionItems @ keywordItems @ brackets @ quotes)"
  by (simp add: scenarioState_def scenarioPosition_def initialState_def onCompletion_def
        keywordItems_def keywords_catalog_def)

text \<open>
  C7, as the code has it. The resolve data of a function or keyword item
  identifies its catalog entry by the catalog's tag and the entry's array
  position, not by its name: the item at position \<open>i\<close> carries the index \<open>i\<close>,
  and resolve, which reads the item and the constant catalogs only, attaches
  the detail and documentation of the entry at that position, which is the
  entry the item was made from.
\<close>

theorem resolve_by_position:
  assumes "i < length functions_catalog" and "j < length keywords_catalog"
  shows "data (functionItems ! i) = Some \<lparr>data_type = ''function'', data_id = int i\<rparr>
       \<and> label (functionItems ! i) = name (functions_catalog ! i)
       \<and> onCompletionResolve (functionItems ! i)
           = Inr ((functionItems ! i)
                   \<lparr>detail := Some (category (functions_catalog ! i) @ '': ''
                                     @ name (functions_catalog ! i)),
                    documentation :=
                      Some (MarkupContent ''markdown''
                              (Some (DocString (fn_documentation (functions_catalog ! i)))))\<rparr>)
       \<and> data (keywordItems ! j) = Some \<lparr>data_type = ''keyword'', data_id = int j\<rparr>
       \<and> label (keywordItems ! j) = keywords_catalog ! j
       \<and> (\<exists>r. onCompletionResolve (keywordItems ! j) = Inr r
              \<and> detail r = Some (''Keyword: '' @ keywords_catalog ! j)
              \<and> label r = keywords_catalog ! j
              \<and> data r = data (keywordItems ! j))"
  using assms
  by (simp add: functionItems_nth keywordItems_nth onCompletionResolve_def
        resolveTraced_def js_index_nat Let_def template_def keywordSwitch_fields)

theorem resolve_by_position_witness:
  "(5::nat) < length functions_catalog \<and> (6::nat) < length keywords_catalog
   \<and> data (functionItems ! 5) = Some \<lparr>data_type = ''function'', data_id = 5\<rparr>
   \<and> label (functionItems ! 5) = ''print''
   \<and> onCompletionResolve (functionItems ! 5)
       = Inr ((functionItems ! 5)
               \<lparr>detail := Some ''IO: print'',
                documentation :=
                  Some (MarkupContent ''markdown'' (Some (DocString ''Print to stdout'')))\<rparr>)
   \<and> data (keywordItems ! 6) = Some \<lparr>data_type = ''keyword'', data_id = 6\<rparr>
   \<and> label (keywordItems ! 6) = ''return''"
  using resolve_by_position [of 5 6]
  by (simp add: functions_catalog_def keywords_catalog_def)

text \<open>
  C7 as stated fails: the data of the item \<open>print\<close> is the position 5, and an
  item named \<open>print\<close> whose data holds the position 0 resolves to the entry
  \<open>to_timestamp\<close>, so the name plays no part in locating the entry.
\<close>

theorem resolve_by_name_counterexample:
  "functionItems ! 5
     = \<lparr>label = ''print'', kind = Some Function, detail = None, documentation = None,
        insertText = None, data = Some \<lparr>data_type = ''function'', data_id = 5\<rparr>\<rparr>
   \<and> onCompletionResolve
         \<lparr>label = ''print'', kind = Some Function, detail = None, documentation = None,
          insertText = None, data = Some \<lparr>data_type = ''function'', data_id = 0\<rparr>\<rparr>
       = Inr \<lparr>label = ''print'', kind = Some Function,
              detail = Some ''Date: to_timestamp'',
              documentation =
                Some (MarkupContent ''markdown'' (Some (DocString ''Convert to timestamp''))),
              insertText = None, data = Some \<lparr>data_type = ''function'', data_id = 0\<rparr>\<rparr>"
  by (simp add: functionItems_nth onCompletionResolve_def resolveTraced_def js_index_def
        functions_catalog_def)

text \<open>
  C8. No item of the initial completion list has a detail or a documentation;
  the item \<open>to_timestamp\<close> is in the list without them, and resolving it
  attaches the detail \<open>Date: to_timestamp\<close> and the documentation.
\<close>

theorem documentation_only_on_resolve:
  assumes "onCompletion st params = Inr items"
  shows "(\<forall>i\<in>set items. detail i = None \<and> documentation i = None)
       \<and> (\<exists>i\<in>set items. label i = ''to_timestamp'' \<and> kind i = Some Function
              \<and> detail i = None \<and> documentation i = None
              \<and> onCompletionResolve i
                  = Inr (i\<lparr>detail := Some ''Date: to_timestamp'',
                           documentation :=
                             Some (MarkupContent ''markdown''
                                     (Some (DocString ''Convert to timestamp'')))\<rparr>))"
proof -
  from assms have items: "items = functionItems @ keywordItems @ brackets @ quotes"
    by (simp add: onCompletion_def)
  have first: "functionItems ! 0
      = \<lparr>label = ''to_timestamp'', kind = Some Function, detail = None,
         documentation = None, insertText = None,
         data = Some \<lparr>data_type = ''function'', data_id = 0\<rparr>\<rparr>"
    by (simp add: functionItems_nth functions_catalog_def)
  have mem: "functionItems ! 0 \<in> set items"
    unfolding items by (simp add: length_functionItems functions_catalog_def)
  have res: "onCompletionResolve (functionItems ! 0)
      = Inr ((functionItems ! 0)\<lparr>detail := Some ''Date: to_timestamp'',
               documentation :=
                 Some (MarkupContent ''markdown''
                         (Some (DocString ''Convert to timestamp'')))\<rparr>)"
    by (simp add: first onCompletionResolve_def resolveTraced_def js_index_def
          functions_catalog_def)
  have none: "\<forall>i\<in>set items. detail i = None \<and> documentation i = None"
    unfolding items using no_detail_in_list by blast
  from mem res first none show ?thesis
    by (intro conjI bexI [of _ "functionItems ! 0"]) simp_all
qed

theorem documentation_only_on_resolve_witness:
  "onCompletion scenarioState scenarioPosition
     = Inr (functionItems @ keywordItems @ brackets @ quotes)
   \<and> textItem ''('' \<in> set (functionItems @ keywordItems @ brackets @ quotes)
   \<and> detail (textItem ''('') = None \<and> documentation (textItem ''('') = None"
  using documentation_only_on_resolve
          [of scenarioState scenarioPosition "functionItems @ keywordItems @ brackets @ quotes"]
  by (simp add: onCompletion_def brackets_def)

text \<open>
  C9. For every initialize request the returned capabilities declare completion
  with \<open>resolveProvider\<close> true and incremental text-document synchronization.
\<close>

theorem initialize_capabilities:
  "resolveProvider (completionProvider (result_capabilities (fst (onInitialize st params))))
   \<and> textDocumentSync (result_capabilities (fst (onInitialize st params))) = Incremental"
  by (simp add: onInitialize_def Let_def)

text \<open>
  C10, as the code has it. The second branch testing \<open>data.type === 'keyword'\<close>
  is unreachable: for no item does the resolve handler enter it, because the
  first test of the chain is the same test and already takes every item whose
  data is tagged \<open>keyword\<close>. The first branch assigns a string documentation
  whenever the index is inside the keyword catalog.
\<close>

theorem fallback_branch_unreachable:
  "resolveTraced item \<noteq> Inr (KeywordFallbackBranch, r)
   \<and> (data item = Some d \<and> data_type d = ''keyword''
        \<longrightarrow> (\<exists>r'. resolveTraced item = Inr (KeywordBranch, r')))
   \<and> (data item = Some d \<and> data_type d = ''keyword''
        \<and> 0 \<le> data_id d \<and> data_id d < int (length keywords_catalog)
        \<longrightarrow> (\<exists>r' s. resolveTraced item = Inr (KeywordBranch, r')
                     \<and> documentation r' = Some (DocString s)))"
proof (intro conjI impI)
  show "resolveTraced item \<noteq> Inr (KeywordFallbackBranch, r)"
    by (simp add: resolveTraced_def Let_def split: option.split)
next
  assume "data item = Some d \<and> data_type d = ''keyword''"
  then show "\<exists>r'. resolveTraced item = Inr (KeywordBranch, r')"
    by (simp add: resolveTraced_def Let_def)
next
  assume h: "data item = Some d \<and> data_type d = ''keyword''
             \<and> 0 \<le> data_id d \<and> data_id d < int (length keywords_catalog)"
  then have idx: "js_index keywords_catalog (data_id d)
                  = Some (keywords_catalog ! nat (data_id d))"
    by (simp add: js_index_def)
  from h have "nat (data_id d) < length keywords_catalog"
    by linarith
  then have "keywords_catalog ! nat (data_id d) \<in> set keywords_catalog"
    by (rule nth_mem)
  then obtain s where
    "documentation
       (keywordSwitch (Some (keywords_catalog ! nat (data_id d)))
          (item\<lparr>detail := Some (''Keyword: ''
                    @ template (Some (keywords_catalog ! nat (data_id d))))\<rparr>))
     = Some (DocString s)"
    using keywordSwitch_catalog by blast
  with h idx show "\<exists>r' s. resolveTraced item = Inr (KeywordBranch, r')
                     \<and> documentation r' = Some (DocString s)"
    by (simp add: resolveTraced_def Let_def)
qed

text \<open>The keyword item \<open>return\<close>, index 6, satisfies both hypotheses.\<close>

theorem fallback_branch_unreachable_witness:
  "data (keywordItems ! 6) = Some \<lparr>data_type = ''keyword'', data_id = 6\<rparr>
   \<and> resolveTraced (keywordItems ! 6) \<noteq> Inr (KeywordFallbackBranch, keywordItems ! 6)
   \<and> (\<exists>r'. resolveTraced (keywordItems ! 6) = Inr (KeywordBranch, r'))
   \<and> (\<exists>r' s. resolveTraced (keywordItems ! 6) = Inr (KeywordBranch, r')
                \<and> documentation r' = Some (DocString s))"
  using fallback_branch_unreachable [of "keywordItems ! 6" "keywordItems ! 6"
                                 "\<lparr>data_type = ''keyword'', data_id = 6\<rparr>"]
  by (simp add: keywordItems_nth keywords_catalog_def)

text \<open>
  C10 as stated fails in its cause: a keyword item with the index 10 enters the
  first keyword branch, which sets the detail and assigns no documentation, so
  the documentation is still absent after it.
\<close>

theorem keyword_documentation_counterexample:
  "data (staleItem ''keyword'' 10) = Some \<lparr>data_type = ''keyword'', data_id = 10\<rparr>
   \<and> documentation (staleItem ''keyword'' 10) = None
   \<and> resolveTraced (staleItem ''keyword'' 10)
       = Inr (KeywordBranch, (staleItem ''keyword'' 10)\<lparr>detail := Some ''Keyword: undefined''\<rparr>)
   \<and> documentation ((staleItem ''keyword'' 10)\<lparr>detail := Some ''Keyword: undefined''\<rparr>) = None"
  by (simp add: staleItem_def resolveTraced_def js_index_def template_def
        keywordSwitch_undefined keywords_catalog_def)

end
